theory Spec2Isabelle
  imports Complex_Main "HOL-Library.Word" "HOL-Library.Multiset"
begin

unbundle bit_operations_syntax

section \<open>Python values shared by all components\<close>

text \<open>
  A Python \<open>str\<close> is modelled as a \<open>string\<close>: one \<open>char\<close> per character, so the
  model covers the texts whose code points are below 256 and \<open>length\<close>, \<open>take\<close> count
  characters as Python's \<open>len\<close> and slicing do. Python's \<open>float\<close> values that are only
  stored or compared (a timeout, a report score, a fused rank score) are exact rationals.
  Every exception the code raises, or lets through from a collaborator, is a value of
  \<open>exn\<close>; a call that may raise returns \<open>exn + 'a\<close>, with \<open>Inl\<close> for the exception.
\<close>

datatype exn =
    AttributeError string
  | TypeError string
  | KeyError string
  | ValueError string
  | RuntimeError string
  | JSONDecodeError string
  | ValidationError string
  | UnicodeDecodeError string
  | OSError string
  | TimeoutExpired "string list" "rat option"
  | UpstreamError string

text \<open>\<open>sep.join(parts)\<close>.\<close>

fun py_join :: "string \<Rightarrow> string list \<Rightarrow> string" where
  "py_join sep [] = []"
| "py_join sep [x] = x"
| "py_join sep (x # y # ys) = x @ sep @ py_join sep (y # ys)"

text \<open>\<open>str(n)\<close> for a Python \<open>int\<close>.\<close>

definition digit_char :: "nat \<Rightarrow> char" where
  "digit_char d = ''0123456789'' ! d"

fun str_nat :: "nat \<Rightarrow> string" where
  "str_nat n = (if n < 10 then [digit_char n] else str_nat (n div 10) @ [digit_char (n mod 10)])"

definition str_int :: "int \<Rightarrow> string" where
  "str_int i = (if i < 0 then CHR ''-'' # str_nat (nat (- i)) else str_nat (nat i))"

text \<open>
  \<open>s.strip()\<close> removes the characters for which \<open>str.isspace\<close> holds from both ends;
  below code point 256 these are 9 to 13, 28 to 32, 133 and 160.
\<close>

definition py_isspace :: "char \<Rightarrow> bool" where
  "py_isspace c = (let n = of_char c :: nat in
     (9 \<le> n \<and> n \<le> 13) \<or> (28 \<le> n \<and> n \<le> 32) \<or> n = 133 \<or> n = 160)"

definition py_strip :: "string \<Rightarrow> string" where
  "py_strip s = rev (dropWhile py_isspace (rev (dropWhile py_isspace s)))"

section \<open>Text Generation Service (app/services/llama\_service.py)\<close>

text \<open>
  \<open>shlex.quote\<close> and \<open>shlex.join\<close> of the standard library: an empty argument is
  rendered as two single quotes, an argument made of the safe characters
  (ASCII letters, digits and \<open>_@%+=:,./-\<close>) is left alone, any other argument is wrapped in
  single quotes with every single quote inside replaced by \<open>'"'"'\<close>.
\<close>

definition shlex_safe_char :: "char \<Rightarrow> bool" where
  "shlex_safe_char c = (let n = of_char c :: nat in
     (48 \<le> n \<and> n \<le> 57) \<or> (65 \<le> n \<and> n \<le> 90) \<or> (97 \<le> n \<and> n \<le> 122)
     \<or> c \<in> set ''_@%+=:,./-'')"

definition shlex_quote :: "string \<Rightarrow> string" where
  \<open>shlex_quote s =
     (if s = [] then [CHR 0x27, CHR 0x27]
      else if list_all shlex_safe_char s then s
      else [CHR 0x27]
           @ concat (map (\<lambda>c. if c = CHR 0x27 then [CHR 0x27, CHR 0x22, CHR 0x27, CHR 0x22, CHR 0x27] else [c]) s)
           @ [CHR 0x27])\<close>

definition shlex_join :: "string list \<Rightarrow> string" where
  "shlex_join cmd = py_join '' '' (map shlex_quote cmd)"

text \<open>
  The service after construction: the resolved executable, the model file, the GPU layer
  flag and the default extra arguments.
\<close>

record llama_service =
  llama_cpp :: string
  model_path :: string
  default_ngl :: string
  default_extra_args :: "string list"

text \<open>
  \<open>_build_command\<close>. \<open>extra_args\<close> is \<open>Optional[List[str]]\<close>; the test \<open>if extra_args\<close>
  is false for \<open>None\<close> and for the empty list.
\<close>

definition build_command :: "llama_service \<Rightarrow> string \<Rightarrow> int \<Rightarrow> string list option \<Rightarrow> string list" where
  "build_command svc prompt max_tokens extra_args =
     [llama_cpp svc, ''-m'', model_path svc, ''-n'', str_int max_tokens,
      ''-ngl'', default_ngl svc, ''-p'', prompt]
     @ (case extra_args of
          None \<Rightarrow> default_extra_args svc
        | Some xs \<Rightarrow> if xs \<noteq> [] then xs else default_extra_args svc)"

text \<open>
  What the operating system does with a child process within the given timeout: it cannot
  be started, it exits with a return code and the bytes of its two output streams, or it
  is still running when the timeout expires. The two decoders are those the variants use:
  \<open>subprocess.run(text=True)\<close> decodes with the locale encoding and raises on an invalid
  byte, \<open>bytes.decode(errors="ignore")\<close> never raises.
\<close>

datatype proc_outcome =
    SpawnFailed string
  | Exited int string string
  | TimedOut

record os_env =
  run_process :: "string list \<Rightarrow> rat option \<Rightarrow> proc_outcome"
  text_decode :: "string \<Rightarrow> exn + string"
  decode_ignore :: "string \<Rightarrow> string"

definition failure_message :: "int \<Rightarrow> string list \<Rightarrow> string \<Rightarrow> string" where
  "failure_message returncode cmd stderr =
     ''LLaMA falhou (exit '' @ str_int returncode @ '').\<newline>''
     @ ''cmd: '' @ shlex_join cmd @ ''\<newline>''
     @ ''stderr:\<newline>'' @ stderr"

text \<open>
  \<open>generate_response\<close>: \<open>subprocess.run\<close> raises \<open>TimeoutExpired\<close> itself when the timeout
  expires, and the method has no handler for it.
\<close>

definition generate_response ::
  "os_env \<Rightarrow> llama_service \<Rightarrow> string \<Rightarrow> int \<Rightarrow> string list option \<Rightarrow> rat option \<Rightarrow> exn + string" where
  "generate_response os svc prompt max_tokens extra_args timeout =
     (let cmd = build_command svc prompt max_tokens extra_args in
      case run_process os cmd timeout of
        SpawnFailed m \<Rightarrow> Inl (OSError m)
      | TimedOut \<Rightarrow> Inl (TimeoutExpired cmd timeout)
      | Exited returncode out err \<Rightarrow>
          (case text_decode os out of
             Inl e \<Rightarrow> Inl e
           | Inr stdout \<Rightarrow>
               (case text_decode os err of
                  Inl e \<Rightarrow> Inl e
                | Inr stderr \<Rightarrow>
                    if returncode \<noteq> 0
                    then Inl (RuntimeError (failure_message returncode cmd stderr))
                    else Inr (py_strip stdout))))"

text \<open>\<open>_run_async\<close>: returns the decoded streams and the return code, or raises.\<close>

definition run_async :: "os_env \<Rightarrow> string list \<Rightarrow> rat option \<Rightarrow> exn + (string \<times> string \<times> int)" where
  "run_async os cmd timeout =
     (case run_process os cmd timeout of
        SpawnFailed m \<Rightarrow> Inl (OSError m)
      | TimedOut \<Rightarrow> Inl (RuntimeError (''LLaMA timeout.\<newline>cmd: '' @ shlex_join cmd))
      | Exited returncode out err \<Rightarrow>
          Inr (decode_ignore os out, decode_ignore os err, returncode))"

definition generate_response_async ::
  "os_env \<Rightarrow> llama_service \<Rightarrow> string \<Rightarrow> int \<Rightarrow> string list option \<Rightarrow> rat option \<Rightarrow> exn + string" where
  "generate_response_async os svc prompt max_tokens extra_args timeout =
     (let cmd = build_command svc prompt max_tokens extra_args in
      case run_async os cmd timeout of
        Inl e \<Rightarrow> Inl e
      | Inr (stdout, stderr, returncode) \<Rightarrow>
          if returncode \<noteq> 0
          then Inl (RuntimeError (failure_message returncode cmd stderr))
          else Inr (py_strip stdout))"

section \<open>Search Service (app/services/opensearch\_service.py)\<close>

text \<open>
  The documents, hits and metadata bags are Python dictionaries with values of any JSON
  type. A dictionary is an association list read with \<open>map_of\<close>; \<open>d.get(k)\<close> of a
  missing key is \<open>None\<close>, here \<open>JNull\<close>.
\<close>

datatype json =
    JNull
  | JBool bool
  | JNum rat
  | JStr string
  | JArr "json list"
  | JObj "(string \<times> json) list"

type_synonym pydict = "(string \<times> json) list"

definition dict_get :: "pydict \<Rightarrow> string \<Rightarrow> json" where
  "dict_get d k = (case map_of d k of None \<Rightarrow> JNull | Some v \<Rightarrow> v)"

definition dict_get_default :: "pydict \<Rightarrow> string \<Rightarrow> json \<Rightarrow> json" where
  "dict_get_default d k dflt = (case map_of d k of None \<Rightarrow> dflt | Some v \<Rightarrow> v)"

text \<open>Python truth value of a JSON value, and \<open>a or b\<close>.\<close>

fun truthy :: "json \<Rightarrow> bool" where
  "truthy JNull = False"
| "truthy (JBool b) = b"
| "truthy (JNum x) = (x \<noteq> 0)"
| "truthy (JStr s) = (s \<noteq> [])"
| "truthy (JArr xs) = (xs \<noteq> [])"
| "truthy (JObj kvs) = (kvs \<noteq> [])"

definition py_or :: "json \<Rightarrow> json \<Rightarrow> json" where
  "py_or a b = (if truthy a then a else b)"


text \<open>
  The two external collaborators of the service. The OpenSearch client answers an
  existence test, an index creation, a search (the list under \<open>hits.hits\<close> of the
  response, empty when the response lacks it), a multi-get (the list under \<open>docs\<close>) and
  a bulk write (the pair of counts \<open>helpers.bulk\<close> returns); any of them may raise. The
  embedding model encodes a batch of texts or one query into vectors.
\<close>

datatype search_query = Match string | Knn "rat list" int

record search_body =
  body_size :: int
  body_query :: search_query

record hit =
  hit_id :: "string option"
  hit_score :: "rat option"
  hit_source :: "pydict option"

record mget_doc =
  doc_found :: bool
  doc_id :: "string option"
  doc_source :: "pydict option"

record index_body =
  src_id :: json
  src_text :: json
  src_metadata :: json
  src_vector :: "rat list"

record bulk_action =
  op_type :: string
  action_index :: string
  action_id :: json
  action_source :: index_body

record os_client =
  indices_exists :: "string \<Rightarrow> exn + bool"
  indices_create :: "string \<Rightarrow> exn + unit"
  search :: "string \<Rightarrow> search_body \<Rightarrow> exn + hit list"
  mget :: "string \<Rightarrow> string list \<Rightarrow> exn + mget_doc list"
  bulk :: "bulk_action list \<Rightarrow> exn + (nat \<times> nat)"

record embed_model =
  encode_batch :: "json list \<Rightarrow> exn + rat list list"
  encode_query :: "string \<Rightarrow> exn + rat list"

record opensearch_service =
  index :: string
  client :: os_client
  model :: embed_model

text \<open>Every call the service makes to a collaborator is appended to a log.\<close>

datatype os_call =
    CallIndicesExists string
  | CallIndicesCreate string
  | CallEncodeBatch "json list"
  | CallEncodeQuery string
  | CallBulk "bulk_action list"
  | CallSearch string search_body
  | CallMGet string "string list"

text \<open>\<open>_ensure_index\<close>: the handler prints and re-raises.\<close>

definition ensure_index :: "opensearch_service \<Rightarrow> os_call list \<Rightarrow> (exn + unit) \<times> os_call list" where
  "ensure_index svc calls =
     (let calls1 = calls @ [CallIndicesExists (index svc)] in
      case indices_exists (client svc) (index svc) of
        Inl e \<Rightarrow> (Inl e, calls1)
      | Inr True \<Rightarrow> (Inr (), calls1)
      | Inr False \<Rightarrow>
          (let calls2 = calls1 @ [CallIndicesCreate (index svc)] in
           case indices_create (client svc) (index svc) of
             Inl e \<Rightarrow> (Inl e, calls2)
           | Inr u \<Rightarrow> (Inr (), calls2)))"

text \<open>\<open>[d["text"] for d in docs]\<close>: the first document without the key raises.\<close>

fun collect_texts :: "pydict list \<Rightarrow> exn + json list" where
  "collect_texts [] = Inr []"
| "collect_texts (d # ds) =
     (case map_of d ''text'' of
        None \<Rightarrow> Inl (KeyError ''text'')
      | Some t \<Rightarrow> (case collect_texts ds of Inl e \<Rightarrow> Inl e | Inr ts \<Rightarrow> Inr (t # ts)))"

definition make_action :: "opensearch_service \<Rightarrow> pydict \<times> rat list \<Rightarrow> bulk_action" where
  "make_action svc dv =
     (let d = fst dv; vec = snd dv; i = dict_get d ''id'' in
      \<lparr>op_type = ''index'', action_index = index svc, action_id = i,
       action_source = \<lparr>src_id = i, src_text = dict_get d ''text'',
                        src_metadata = py_or (dict_get d ''metadata'') (JObj []),
                        src_vector = vec\<rparr>\<rparr>)"

text \<open>\<open>index_docs\<close>; the result is the number under the key \<open>indexed\<close>.\<close>

definition index_docs :: "opensearch_service \<Rightarrow> pydict list \<Rightarrow> os_call list \<Rightarrow> (exn + nat) \<times> os_call list" where
  "index_docs svc docs calls =
     (if docs = [] then (Inr 0, calls)
      else case ensure_index svc calls of
        (Inl e, calls1) \<Rightarrow> (Inl e, calls1)
      | (Inr u, calls1) \<Rightarrow>
          (case collect_texts docs of
             Inl e \<Rightarrow> (Inl e, calls1)
           | Inr texts \<Rightarrow>
               (let calls2 = calls1 @ [CallEncodeBatch texts] in
                case encode_batch (model svc) texts of
                  Inl e \<Rightarrow> (Inl e, calls2)
                | Inr vectors \<Rightarrow>
                    (let actions = map (make_action svc) (zip docs vectors);
                         calls3 = calls2 @ [CallBulk actions] in
                     case bulk (client svc) actions of
                       Inl e \<Rightarrow> (Inl e, calls3)
                     | Inr (success, errors) \<Rightarrow> (Inr success, calls3)))))"

text \<open>The slim record both searches return.\<close>

record slim_hit =
  slim_id :: json
  slim_score :: "rat option"
  slim_text :: json
  slim_meta :: json

definition opt_str :: "string option \<Rightarrow> json" where
  "opt_str x = (case x of None \<Rightarrow> JNull | Some s \<Rightarrow> JStr s)"

definition source_of :: "pydict option \<Rightarrow> pydict" where
  "source_of x = (case x of None \<Rightarrow> [] | Some d \<Rightarrow> d)"

definition knn_body :: "rat list \<Rightarrow> int \<Rightarrow> search_body" where
  "knn_body vec top_k = \<lparr>body_size = top_k, body_query = Knn vec top_k\<rparr>"

definition slim_of_hit :: "hit \<Rightarrow> slim_hit" where
  "slim_of_hit h =
     (let src = source_of (hit_source h) in
      \<lparr>slim_id = py_or (dict_get src ''id'') (opt_str (hit_id h)),
       slim_score = hit_score h,
       slim_text = dict_get_default src ''text'' (JStr []),
       slim_meta = py_or (dict_get src ''metadata'') (JObj [])\<rparr>)"

definition search_knn_slim ::
  "opensearch_service \<Rightarrow> string \<Rightarrow> int \<Rightarrow> os_call list \<Rightarrow> (exn + slim_hit list) \<times> os_call list" where
  "search_knn_slim svc query top_k calls =
     (case ensure_index svc calls of
        (Inl e, calls1) \<Rightarrow> (Inl e, calls1)
      | (Inr u, calls1) \<Rightarrow>
          (let calls2 = calls1 @ [CallEncodeQuery query] in
           case encode_query (model svc) query of
             Inl e \<Rightarrow> (Inl e, calls2)
           | Inr vec \<Rightarrow>
               (let calls3 = calls2 @ [CallSearch (index svc) (knn_body vec top_k)] in
                case search (client svc) (index svc) (knn_body vec top_k) of
                  Inl e \<Rightarrow> (Inl e, calls3)
                | Inr hits \<Rightarrow> (Inr (map slim_of_hit hits), calls3))))"

text \<open>
  Reciprocal rank fusion. \<open>scores\<close> is a dictionary, which keeps its keys in the order of
  their first insertion: an association list with distinct keys. \<open>add_rrf\<close> numbers the
  hits from 1 and skips a hit whose \<open>_id\<close> is missing or empty, without renumbering.
\<close>

type_synonym scores = "(string \<times> rat) list"





text \<open>
  \<open>sorted(scores.items(), key=lambda x: x[1], reverse=True)\<close>: a stable sort, so entries
  of equal score keep the order of the dictionary.
\<close>

definition merged :: "scores \<Rightarrow> scores" where
  "merged sc = sort_key (\<lambda>x. - snd x) sc"





section \<open>Data model (app/models/app\_analysis.py)\<close>

record AndroguardAnalysis =
  package_name :: string
  permissions_list :: "string list"
  dalvik_analysis_log :: string

record ThemisAIReport =
  report_package_name :: string
  score :: rat
  summary :: string
  vulnerability_name :: string
  severity_level :: string
  mitigation_actions :: "string list"

text \<open>
  \<open>model_dump_json\<close> of the request, as pydantic writes it: the fields in their order of
  declaration, no white space, every string quoted with the escapes of JSON (the quote,
  the backslash and the control characters below 32; everything else as it is).
\<close>

definition hex_digit :: "nat \<Rightarrow> char" where
  "hex_digit d = ''0123456789abcdef'' ! d"

definition json_escape_char :: "char \<Rightarrow> string" where
  "json_escape_char c =
     (if c = CHR 0x22 then [CHR 0x5C, CHR 0x22]
      else if c = CHR 0x5C then [CHR 0x5C, CHR 0x5C]
      else if c = CHR 0x08 then [CHR 0x5C, CHR ''b'']
      else if c = CHR 0x0C then [CHR 0x5C, CHR ''f'']
      else if c = CHR 0x0A then [CHR 0x5C, CHR ''n'']
      else if c = CHR 0x0D then [CHR 0x5C, CHR ''r'']
      else if c = CHR 0x09 then [CHR 0x5C, CHR ''t'']
      else if (of_char c :: nat) < 32
        then [CHR 0x5C, CHR ''u'', CHR ''0'', CHR ''0'',
              hex_digit (of_char c div 16), hex_digit (of_char c mod 16)]
      else [c])"

definition json_string :: "string \<Rightarrow> string" where
  "json_string s = CHR 0x22 # concat (map json_escape_char s) @ [CHR 0x22]"

definition model_dump_json :: "AndroguardAnalysis \<Rightarrow> string" where
  \<open>model_dump_json req =
     ''{"package_name":'' @ json_string (package_name req)
     @ '',"permissions_list":['' @ py_join '','' (map json_string (permissions_list req))
     @ ''],"dalvik_analysis_log":'' @ json_string (dalvik_analysis_log req) @ ''}''\<close>

text \<open>\<open>model_dump_json(indent=2)\<close>: one field and one list element per line.\<close>

definition model_dump_json_indent2 :: "AndroguardAnalysis \<Rightarrow> string" where
  \<open>model_dump_json_indent2 req =
     ''{\<newline>''
     @ ''  "package_name": '' @ json_string (package_name req) @ '',\<newline>''
     @ ''  "permissions_list": ''
     @ (if permissions_list req = [] then ''[]''
        else ''[\<newline>''
             @ py_join '',\<newline>'' (map (\<lambda>p. ''    '' @ json_string p) (permissions_list req))
             @ ''\<newline>  ]'')
     @ '',\<newline>''
     @ ''  "dalvik_analysis_log": '' @ json_string (dalvik_analysis_log req) @ ''\<newline>''
     @ ''}''\<close>

section \<open>Cache key: UTF-8 and SHA-256 (hashlib)\<close>

text \<open>\<open>str.encode()\<close>: UTF-8, one byte below code point 128 and two bytes from 128 to 255.\<close>

type_synonym byte = "8 word"
type_synonym u32 = "32 word"

definition utf8_char :: "char \<Rightarrow> byte list" where
  "utf8_char c =
     (let n = of_char c :: nat in
      if n < 128 then [of_nat n] else [of_nat (192 + n div 64), of_nat (128 + n mod 64)])"

definition encode :: "string \<Rightarrow> byte list" where
  "encode s = concat (map utf8_char s)"

text \<open>
  SHA-256 as FIPS 180-4 defines it, which is what \<open>hashlib.sha256\<close> computes. The round
  constants and the initial hash value are written in decimal.
\<close>

definition sha256_K :: "u32 list" where
  "sha256_K = [
      1116352408, 1899447441, 3049323471, 3921009573,
      961987163, 1508970993, 2453635748, 2870763221,
      3624381080, 310598401, 607225278, 1426881987,
      1925078388, 2162078206, 2614888103, 3248222580,
      3835390401, 4022224774, 264347078, 604807628,
      770255983, 1249150122, 1555081692, 1996064986,
      2554220882, 2821834349, 2952996808, 3210313671,
      3336571891, 3584528711, 113926993, 338241895,
      666307205, 773529912, 1294757372, 1396182291,
      1695183700, 1986661051, 2177026350, 2456956037,
      2730485921, 2820302411, 3259730800, 3345764771,
      3516065817, 3600352804, 4094571909, 275423344,
      430227734, 506948616, 659060556, 883997877,
      958139571, 1322822218, 1537002063, 1747873779,
      1955562222, 2024104815, 2227730452, 2361852424,
      2428436474, 2756734187, 3204031479, 3329325298]"

definition sha256_H0 :: "u32 list" where
  "sha256_H0 = [1779033703, 3144134277, 1013904242, 2773480762,
                1359893119, 2600822924, 528734635, 1541459225]"

definition Ch :: "u32 \<Rightarrow> u32 \<Rightarrow> u32 \<Rightarrow> u32" where
  "Ch x y z = (x AND y) XOR (NOT x AND z)"

definition Maj :: "u32 \<Rightarrow> u32 \<Rightarrow> u32 \<Rightarrow> u32" where
  "Maj x y z = (x AND y) XOR (x AND z) XOR (y AND z)"

definition Sigma0 :: "u32 \<Rightarrow> u32" where
  "Sigma0 x = word_rotr 2 x XOR word_rotr 13 x XOR word_rotr 22 x"

definition Sigma1 :: "u32 \<Rightarrow> u32" where
  "Sigma1 x = word_rotr 6 x XOR word_rotr 11 x XOR word_rotr 25 x"

definition sigma0 :: "u32 \<Rightarrow> u32" where
  "sigma0 x = word_rotr 7 x XOR word_rotr 18 x XOR drop_bit 3 x"

definition sigma1 :: "u32 \<Rightarrow> u32" where
  "sigma1 x = word_rotr 17 x XOR word_rotr 19 x XOR drop_bit 10 x"

definition be64 :: "nat \<Rightarrow> byte list" where
  "be64 n = map (\<lambda>i. of_nat (n div 2 ^ (8 * (7 - i)) mod 256)) [0..<8]"

definition sha256_pad :: "byte list \<Rightarrow> byte list" where
  "sha256_pad m =
     m @ [0x80] @ replicate ((119 - length m mod 64) mod 64) 0 @ be64 (8 * length m)"

definition be_word :: "byte list \<Rightarrow> u32" where
  "be_word bs = foldl (\<lambda>acc b. push_bit 8 acc OR ucast b) 0 bs"

definition block_words :: "byte list \<Rightarrow> u32 list" where
  "block_words blk = map (\<lambda>i. be_word (take 4 (drop (4 * i) blk))) [0..<16]"

fun schedule_ext :: "nat \<Rightarrow> u32 list \<Rightarrow> u32 list" where
  "schedule_ext 0 w = w"
| "schedule_ext (Suc n) w =
     (let t = length w in
      schedule_ext n (w @ [sigma1 (w ! (t - 2)) + w ! (t - 7) + sigma0 (w ! (t - 15)) + w ! (t - 16)]))"

definition sha256_round :: "u32 list \<Rightarrow> u32 \<times> u32 \<Rightarrow> u32 list" where
  "sha256_round st kw =
     (case st of
        [a, b, c, d, e, f, g, h] \<Rightarrow>
          (let t1 = h + Sigma1 e + Ch e f g + fst kw + snd kw;
               t2 = Sigma0 a + Maj a b c
           in [t1 + t2, a, b, c, d + t1, e, f, g])
      | _ \<Rightarrow> st)"

definition sha256_compress :: "u32 list \<Rightarrow> byte list \<Rightarrow> u32 list" where
  "sha256_compress hs blk =
     map2 (+) hs (foldl sha256_round hs (zip sha256_K (schedule_ext 48 (block_words blk))))"

definition sha256_blocks :: "byte list \<Rightarrow> byte list list" where
  "sha256_blocks p = map (\<lambda>i. take 64 (drop (64 * i) p)) [0..<length p div 64]"

definition sha256 :: "byte list \<Rightarrow> u32 list" where
  "sha256 m = foldl sha256_compress sha256_H0 (sha256_blocks (sha256_pad m))"

definition hex_word :: "u32 \<Rightarrow> string" where
  "hex_word w = map (\<lambda>i. hex_digit (unat (drop_bit (4 * (7 - i)) w AND 0xF))) [0..<8]"

definition hexdigest :: "u32 list \<Rightarrow> string" where
  "hexdigest hs = concat (map hex_word hs)"

definition cache_key :: "AndroguardAnalysis \<Rightarrow> string" where
  "cache_key req =
     (let input_hash = hexdigest (sha256 (encode (model_dump_json req)))
      in ''themisai:analysis:'' @ input_hash)"

section \<open>Analysis Coordinator (app/domain/analysis\_domain.py)\<close>

text \<open>
  The three collaborators the constructor stores.

  The retriever is either an instance of \<open>OpenSearchService\<close>, or any other object with
  a \<open>search_vector\<close> coroutine, such as the \<open>AsyncMock\<close> of the unit tests, given by what
  that coroutine returns or raises for a query. The generator is either a \<open>LlamaService\<close>
  with the operating system it runs on, or a stand-in given by the behaviour of its
  \<open>generate_response_async\<close>.
\<close>

datatype retriever =
    OpenSearchRetriever opensearch_service
  | SearchVectorStub "string \<Rightarrow> exn + string list"

datatype generator =
    LlamaGenerator os_env llama_service
  | GenerateStub "string \<Rightarrow> int \<Rightarrow> exn + string"

text \<open>
  The attribute lookup \<open>self.retriever.search_vector\<close>. The class \<open>OpenSearchService\<close>
  defines the methods \<open>_ensure_index\<close>, \<open>index_docs\<close>, \<open>search_knn_slim\<close> and
  \<open>search_hybrid_slim\<close> and sets the attributes \<open>host\<close>, \<open>index\<close>, \<open>client\<close>, \<open>model\<close> and
  \<open>dim\<close>: the lookup of any other name on an instance fails. The methods of the class are
  synchronous, so the \<open>await\<close> of what one of them returns raises \<open>TypeError\<close>.
\<close>

definition OpenSearchService_attributes :: "string list" where
  "OpenSearchService_attributes =
     [''host'', ''index'', ''client'', ''model'', ''dim'',
      ''_ensure_index'', ''index_docs'', ''search_knn_slim'', ''search_hybrid_slim'']"

fun search_vector_of :: "retriever \<Rightarrow> exn + (string \<Rightarrow> exn + string list)" where
  "search_vector_of (SearchVectorStub f) = Inr f"
| "search_vector_of (OpenSearchRetriever svc) =
     (if ''search_vector'' \<in> set OpenSearchService_attributes
      then Inl (TypeError ''search_vector'')
      else Inl (AttributeError ''search_vector''))"

fun generate_async :: "generator \<Rightarrow> string \<Rightarrow> int \<Rightarrow> exn + string" where
  "generate_async (GenerateStub f) prompt max_tokens = f prompt max_tokens"
| "generate_async (LlamaGenerator os svc) prompt max_tokens =
     generate_response_async os svc prompt max_tokens None None"

text \<open>
  Modelled from the spec: the cache service (\<open>app/services/redis_service.py\<close>) is not among
  the sources. Its protocol is \<open>get(key)\<close>, returning a string or absent, and
  \<open>set(key, value, expire_seconds)\<close>. The store maps a key to its value and expiration;
  a cache service is given by what its two operations do to a store, and
  \<open>key_value_cache\<close> is the one that keeps what was set.
\<close>

type_synonym store = "string \<rightharpoonup> string \<times> nat"

record cache_service =
  cache_get :: "string \<Rightarrow> store \<Rightarrow> exn + string option"
  cache_set :: "string \<Rightarrow> string \<Rightarrow> nat \<Rightarrow> store \<Rightarrow> exn + store"

definition key_value_cache :: cache_service where
  "key_value_cache =
     \<lparr>cache_get = (\<lambda>k st. Inr (map_option fst (st k))),
      cache_set = (\<lambda>k v ex st. Inr (st(k \<mapsto> (v, ex))))\<rparr>"

record AnalysisDomain =
  retriever :: retriever
  generator :: generator
  cache :: cache_service

text \<open>
  \<open>AnalysisDomain.__init__\<close> has three parameters without default values; an argument
  that the call does not supply is \<open>None\<close> here, and the call then raises \<open>TypeError\<close>
  naming the missing parameters.
\<close>

definition missing_arguments :: "retriever option \<Rightarrow> generator option \<Rightarrow> cache_service option \<Rightarrow> string list" where
  "missing_arguments r g c =
     (if r = None then [''retriever''] else [])
     @ (if g = None then [''generator''] else [])
     @ (if c = None then [''cache''] else [])"

definition AnalysisDomain_init ::
  "retriever option \<Rightarrow> generator option \<Rightarrow> cache_service option \<Rightarrow> exn + AnalysisDomain" where
  "AnalysisDomain_init r g c =
     (case (r, g, c) of
        (Some r', Some g', Some c') \<Rightarrow> Inr \<lparr>retriever = r', generator = g', cache = c'\<rparr>
      | _ \<Rightarrow> Inl (TypeError (py_join '', '' (missing_arguments r g c))))"

text \<open>
  The model class of the report, as the coordinator uses it: \<open>model_validate_json\<close>
  returns a report or raises, and \<open>model_json_schema\<close> is the JSON schema of the class
  as \<open>json.dumps\<close> renders it with an indentation of 2.
\<close>

record report_model =
  model_validate_json :: "string \<Rightarrow> exn + ThemisAIReport"
  model_json_schema :: string

text \<open>
  The state a call works on: the store behind the cache, and the calls made so far, in
  their order: the reads and writes of the cache, the retrievals, the generations, and the
  validations of a text against the report model. What the code prints is left out.
\<close>

datatype event =
    CacheGet string
  | SearchVector string
  | Generate string int
  | CacheSet string string nat
  | Validate string

record world =
  store :: store
  events :: "event list"

definition record_event :: "event \<Rightarrow> world \<Rightarrow> world" where
  "record_event e w = w\<lparr>events := events w @ [e]\<rparr>"

definition specific_context :: "string \<Rightarrow> string \<Rightarrow> string" where
  \<open>specific_context pkg app_data_json =
     ''\<newline>''
     @ ''        # CONTEXTO ESPEC'' @ [CHR 0xCD] @ ''FICO DA APLICA'' @ [CHR 0xC7] @ [CHR 0xC3] @ ''O (ANDROGUARD)\<newline>''
     @ ''        Pacote: '' @ pkg @ ''.\<newline>''
     @ ''        Dados Anal'' @ [CHR 0xED] @ ''ticos Brutos (JSON):\<newline>''
     @ ''        '' @ app_data_json @ ''\<newline>''
     @ ''        ''\<close>

definition get_system_prompt :: "string \<Rightarrow> string" where
  \<open>get_system_prompt schema_json_str =
     ''\<newline>''
     @ ''        Voc'' @ [CHR 0xEA] @ '' '' @ [CHR 0xE9] @ '' um Analista de Seguran'' @ [CHR 0xE7] @ ''a S'' @ [CHR 0xEA] @ ''nior, especializado em an'' @ [CHR 0xE1] @ ''lise est'' @ [CHR 0xE1] @ ''tica de aplicativos Android.\<newline>''
     @ ''\<newline>''
     @ ''        Sua '' @ [CHR 0xFA] @ ''nica e estrita tarefa '' @ [CHR 0xE9] @ '' ANALISAR os dados brutos do aplicativo fornecidos\<newline>''
     @ ''        e usar o CONTEXTO MITRE fornecido para identificar vulnerabilidades e mitig'' @ [CHR 0xE1] @ ''-las.\<newline>''
     @ ''\<newline>''
     @ ''        SUA RESPOSTA DEVE SER ESTREITAMENTE O OBJETO JSON COMPLETO, SEM QUALQUER TEXTO EXPLICATIVO, \<newline>''
     @ ''        CABE'' @ [CHR 0xC7] @ ''ALHO, MARCA'' @ [CHR 0xC7] @ [CHR 0xC3] @ ''O DE C'' @ [CHR 0xD3] @ ''DIGO (```JSON) OU INTRODU'' @ [CHR 0xC7] @ [CHR 0xC3] @ ''O.\<newline>''
     @ ''\<newline>''
     @ ''        FORMATO DE SA'' @ [CHR 0xCD] @ ''DA OBRIGAT'' @ [CHR 0xD3] @ ''RIO (JSON Schema):\<newline>''
     @ ''        ---\<newline>''
     @ ''        '' @ schema_json_str @ ''\<newline>''
     @ ''        ---\<newline>''
     @ ''        ''\<close>

definition format_final_prompt :: "string \<Rightarrow> string \<Rightarrow> string list \<Rightarrow> string" where
  \<open>format_final_prompt system_prompt app_context mitre_context =
     (let mitre_context_str = py_join ''\<newline>'' (map (\<lambda>c. ''  - '' @ c) mitre_context) in
     ''\<newline>''
     @ ''        '' @ system_prompt @ ''\<newline>''
     @ ''\<newline>''
     @ ''        ################################################################################\<newline>''
     @ ''        # CONTEXTO GERAL DE SEGURAN'' @ [CHR 0xC7] @ ''A (MITRE ATT&CK Mobile)\<newline>''
     @ ''        ################################################################################\<newline>''
     @ ''        Use este contexto para identificar e categorizar vulnerabilidades presentes nos \<newline>''
     @ ''        dados do aplicativo e sugerir mitiga'' @ [CHR 0xE7] @ [CHR 0xF5] @ ''es.\<newline>''
     @ ''\<newline>''
     @ ''        Chunk de Conhecimento:\<newline>''
     @ ''        '' @ mitre_context_str @ ''\<newline>''
     @ ''\<newline>''
     @ ''\<newline>''
     @ ''        ################################################################################\<newline>''
     @ ''        # DADOS BRUTOS DA APLICA'' @ [CHR 0xC7] @ [CHR 0xC3] @ ''O (ANDROGUARD)\<newline>''
     @ ''        ################################################################################\<newline>''
     @ ''        Analise o conte'' @ [CHR 0xFA] @ ''do abaixo (logs, permiss'' @ [CHR 0xF5] @ ''es, resultados de an'' @ [CHR 0xE1] @ ''lise est'' @ [CHR 0xE1] @ ''tica)\<newline>''
     @ ''        para correlacionar com as t'' @ [CHR 0xE9] @ ''cnicas MITRE.\<newline>''
     @ ''\<newline>''
     @ ''        '' @ app_context @ ''\<newline>''
     @ ''\<newline>''
     @ ''\<newline>''
     @ ''        ################################################################################\<newline>''
     @ ''        # TAREFA FINAL E RESTRI'' @ [CHR 0xC7] @ [CHR 0xD5] @ ''ES\<newline>''
     @ ''        ################################################################################\<newline>''
     @ ''        Sua an'' @ [CHR 0xE1] @ ''lise deve ser completa, baseada estritamente nos dados fornecidos. \<newline>''
     @ ''        Gere o relat'' @ [CHR 0xF3] @ ''rio de seguran'' @ [CHR 0xE7] @ ''a completo no formato JSON ESPECIFICADO NO IN'' @ [CHR 0xCD] @ ''CIO \<newline>''
     @ ''        (ThemisAIReport), sem adicionar nenhuma outra informa'' @ [CHR 0xE7] @ [CHR 0xE3] @ ''o.\<newline>''
     @ ''        '')\<close>

text \<open>The truth value of \<open>cached_report\<close>: false for \<open>None\<close> and for the empty string.\<close>

definition cached_truthy :: "string option \<Rightarrow> bool" where
  "cached_truthy c = (case c of None \<Rightarrow> False | Some s \<Rightarrow> s \<noteq> [])"

text \<open>
  The last statement of \<open>perform_analysis\<close>: the handler catches \<open>json.JSONDecodeError\<close>
  only, and replaces it with a \<open>ValueError\<close> quoting the first 200 characters.
\<close>

definition invalid_json_message :: "string \<Rightarrow> string \<Rightarrow> string" where
  "invalid_json_message e json_response_str =
     ''LLM retornou JSON inv'' @ [CHR 0xE1] @ ''lido. Erro: '' @ e
     @ ''. Output: '' @ take 200 json_response_str @ ''...''"

definition validate_response :: "report_model \<Rightarrow> string \<Rightarrow> exn + ThemisAIReport" where
  "validate_response rm json_response_str =
     (case model_validate_json rm json_response_str of
        Inr report \<Rightarrow> Inr report
      | Inl (JSONDecodeError e) \<Rightarrow> Inl (ValueError (invalid_json_message e json_response_str))
      | Inl other \<Rightarrow> Inl other)"

definition TTL_SECONDS :: nat where
  "TTL_SECONDS = 3600"

text \<open>The part of \<open>perform_analysis\<close> after the cache test has failed.\<close>

definition cache_miss ::
  "report_model \<Rightarrow> AnalysisDomain \<Rightarrow> AndroguardAnalysis \<Rightarrow> string \<Rightarrow> world
     \<Rightarrow> (exn + ThemisAIReport) \<times> world" where
  "cache_miss rm self req key w1 =
     (let app_data_json = model_dump_json_indent2 req;
          context = specific_context (package_name req) app_data_json
      in case search_vector_of (retriever self) of
        Inl e \<Rightarrow> (Inl e, w1)
      | Inr search_vector \<Rightarrow>
          (let w2 = record_event (SearchVector context) w1 in
           case search_vector context of
             Inl e \<Rightarrow> (Inl e, w2)
           | Inr mitre_chunks \<Rightarrow>
               (let SYSTEM_PROMPT = get_system_prompt (model_json_schema rm);
                    final_prompt = format_final_prompt SYSTEM_PROMPT context mitre_chunks;
                    w3 = record_event (Generate final_prompt 512) w2
                in case generate_async (generator self) final_prompt 512 of
                  Inl e \<Rightarrow> (Inl e, w3)
                | Inr json_response_str \<Rightarrow>
                    (let w4 = record_event (CacheSet key json_response_str TTL_SECONDS) w3 in
                     case cache_set (cache self) key json_response_str TTL_SECONDS (store w4) of
                       Inl e \<Rightarrow> (Inl e, w4)
                     | Inr st \<Rightarrow>
                         (validate_response rm json_response_str,
                          record_event (Validate json_response_str) (w4\<lparr>store := st\<rparr>))))))"

definition perform_analysis ::
  "report_model \<Rightarrow> AnalysisDomain \<Rightarrow> AndroguardAnalysis \<Rightarrow> world
     \<Rightarrow> (exn + ThemisAIReport) \<times> world" where
  "perform_analysis rm self req w =
     (let key = cache_key req;
          w1 = record_event (CacheGet key) w
      in case cache_get (cache self) key (store w1) of
        Inl e \<Rightarrow> (Inl e, w1)
      | Inr cached_report \<Rightarrow>
          if cached_truthy cached_report
          then (model_validate_json rm (the cached_report),
                record_event (Validate (the cached_report)) w1)
          else cache_miss rm self req key w1)"

section \<open>HTTP endpoint (app/routes/app\_analysis.py)\<close>

definition get_analysis_domain :: "retriever \<Rightarrow> generator \<Rightarrow> exn + AnalysisDomain" where
  "get_analysis_domain r g = AnalysisDomain_init (Some r) (Some g) None"

text \<open>
  \<open>analyze_app\<close>. The framework resolves the dependencies in the order of the parameters,
  first the authentication and then the factory, and calls the body only when both have
  returned; an exception of a dependency does not pass through the handler of the body,
  which turns every exception of \<open>perform_analysis\<close> into a response with status 500.
\<close>

datatype http_error =
    DependencyFailed exn
  | HTTP_500 exn

definition analyze_app ::
  "report_model \<Rightarrow> exn + unit \<Rightarrow> retriever \<Rightarrow> generator \<Rightarrow> AndroguardAnalysis \<Rightarrow> world
     \<Rightarrow> (http_error + ThemisAIReport) \<times> world" where
  "analyze_app rm current_user r g req w =
     (case current_user of
        Inl e \<Rightarrow> (Inl (DependencyFailed e), w)
      | Inr u \<Rightarrow>
          (case get_analysis_domain r g of
             Inl e \<Rightarrow> (Inl (DependencyFailed e), w)
           | Inr domain \<Rightarrow>
               (case perform_analysis rm domain req w of
                  (Inl e, w') \<Rightarrow> (Inl (HTTP_500 e), w')
                | (Inr report, w') \<Rightarrow> (Inr report, w'))))"

section \<open>Vocabulary of the properties\<close>





text \<open>The query and the prompt of a cache miss, as \<open>perform_analysis\<close> builds them.\<close>

definition context_of :: "AndroguardAnalysis \<Rightarrow> string" where
  "context_of req = specific_context (package_name req) (model_dump_json_indent2 req)"

definition prompt_of :: "report_model \<Rightarrow> AndroguardAnalysis \<Rightarrow> string list \<Rightarrow> string" where
  "prompt_of rm req chunks =
     format_final_prompt (get_system_prompt (model_json_schema rm)) (context_of req) chunks"

text \<open>The events a call has added, and how many of them are of one kind.\<close>

definition new_events :: "world \<Rightarrow> world \<Rightarrow> event list" where
  "new_events w w' = drop (length (events w)) (events w')"

fun is_retrieval :: "event \<Rightarrow> bool" where
  "is_retrieval (SearchVector q) = True"
| "is_retrieval e = False"

fun is_generation :: "event \<Rightarrow> bool" where
  "is_generation (Generate p n) = True"
| "is_generation e = False"

fun is_cache_write :: "event \<Rightarrow> bool" where
  "is_cache_write (CacheSet k v ex) = True"
| "is_cache_write e = False"

definition count_events :: "(event \<Rightarrow> bool) \<Rightarrow> event list \<Rightarrow> nat" where
  "count_events P evs = length (filter P evs)"

definition is_service_call :: "event \<Rightarrow> bool" where
  "is_service_call e = (is_retrieval e \<or> is_generation e \<or> is_cache_write e)"

text \<open>What the last statement of \<open>perform_analysis\<close> raises when the validation raises \<open>e\<close>.\<close>

definition raised_for :: "exn \<Rightarrow> string \<Rightarrow> exn" where
  "raised_for e json_response_str =
     (case e of
        JSONDecodeError m \<Rightarrow> ValueError (invalid_json_message m json_response_str)
      | _ \<Rightarrow> e)"

section \<open>Concrete scenarios\<close>

text \<open>A service as the container image configures it, and a child process that outlives any timeout.\<close>

definition example_llama :: llama_service where
  "example_llama =
     \<lparr>llama_cpp = ''/app/llama.cpp/build/bin/llama-cli'', model_path = ''/models/model.gguf'',
      default_ngl = ''0'', default_extra_args = []\<rparr>"

definition slow_process :: os_env where
  "slow_process =
     \<lparr>run_process = (\<lambda>cmd timeout. case timeout of None \<Rightarrow> Exited 0 ''ok'' [] | Some t \<Rightarrow> TimedOut),
      text_decode = Inr, decode_ignore = (\<lambda>b. b)\<rparr>"

text \<open>
  The scenario of the unit tests: a request, the report the model is expected to write, a
  report model that stands for \<open>ThemisAIReport\<close> on the texts used here (it accepts the
  report, and raises the \<open>ValidationError\<close> of pydantic on a text without the required
  fields and on a text that is not JSON), stand-ins for the three services as
  \<open>AsyncMock\<close> provides them, a generator whose child process exits with status 1, and
  an empty and a filled cache.
\<close>

definition example_request :: AndroguardAnalysis where
  "example_request =
     \<lparr>package_name = ''com.example.app'', permissions_list = [''INTERNET''],
      dalvik_analysis_log = ''suspicious call to sendSms''\<rparr>"

definition example_report_json :: string where
  \<open>example_report_json =
     ''{"package_name": "com.example.app", "score": 7.5, "summary": "The app can send SMS.", ''
     @ ''"vulnerability_name": "SMS abuse", "severity_level": "High", ''
     @ ''"mitigation_actions": ["Remove the SEND_SMS call."]}''\<close>

definition example_report :: ThemisAIReport where
  "example_report =
     \<lparr>report_package_name = ''com.example.app'', score = 15 / 2,
      summary = ''The app can send SMS.'', vulnerability_name = ''SMS abuse'',
      severity_level = ''High'', mitigation_actions = [''Remove the SEND_SMS call.'']\<rparr>"

definition incomplete_report_json :: string where
  \<open>incomplete_report_json = ''{"package_name": "com.example.app"}''\<close>

definition example_validate :: "string \<Rightarrow> exn + ThemisAIReport" where
  \<open>example_validate s =
     (if s = example_report_json then Inr example_report
      else if s = incomplete_report_json
        then Inl (ValidationError ''5 validation errors for ThemisAIReport: Field required'')
      else Inl (ValidationError ''1 validation error for ThemisAIReport: Invalid JSON''))\<close>

definition example_model :: report_model where
  \<open>example_model =
     \<lparr>model_validate_json = example_validate,
      model_json_schema = ''{"title": "ThemisAIReport", "type": "object"}''\<rparr>\<close>

definition stub_domain :: "string \<Rightarrow> AnalysisDomain" where
  "stub_domain llm_output =
     \<lparr>retriever = SearchVectorStub (\<lambda>q. Inr [''MITRE T1.1: SMS abuse pattern'']),
      generator = GenerateStub (\<lambda>prompt max_tokens. Inr llm_output),
      cache = key_value_cache\<rparr>"

definition crashing_process :: os_env where
  "crashing_process =
     \<lparr>run_process = (\<lambda>cmd timeout. Exited 1 [] ''error: failed to load model''),
      text_decode = Inr, decode_ignore = (\<lambda>b. b)\<rparr>"

definition crashing_domain :: AnalysisDomain where
  "crashing_domain =
     \<lparr>retriever = SearchVectorStub (\<lambda>q. Inr [''MITRE T1.1: SMS abuse pattern'']),
      generator = LlamaGenerator crashing_process example_llama,
      cache = key_value_cache\<rparr>"

definition cold_world :: world where
  "cold_world = \<lparr>store = Map.empty, events = []\<rparr>"

definition warm_world :: world where
  "warm_world =
     \<lparr>store = [cache_key example_request \<mapsto> (example_report_json, 3600)], events = []\<rparr>"





section \<open>Properties of the Text Generation Service\<close>

lemma build_command_example:
  "build_command example_llama ''hi'' 200 None =
     [''/app/llama.cpp/build/bin/llama-cli'', ''-m'', ''/models/model.gguf'',
      ''-n'', ''200'', ''-ngl'', ''0'', ''-p'', ''hi'']"
  by (simp add: build_command_def example_llama_def str_int_def digit_char_def)

text \<open>
  Both variants build the command with \<open>_build_command\<close>, and whenever the child process
  exits and the two decoders agree on its output they raise the same error or return the
  same trimmed text.
\<close>

lemma generate_variants_agree_on_exit:
  assumes "run_process os (build_command svc prompt n extra) timeout = Exited rc out err"
    and "text_decode os out = Inr (decode_ignore os out)"
    and "text_decode os err = Inr (decode_ignore os err)"
  shows "generate_response os svc prompt n extra timeout
         = generate_response_async os svc prompt n extra timeout"
  using assms
  by (simp add: generate_response_def generate_response_async_def run_async_def Let_def)

text \<open>
  C7 (the synchronous and the asynchronous variant classify errors the same way, also on
  timeout): not so when the timeout expires. For the prompt \<open>hi\<close>, 200 tokens and a timeout
  of one second that the child process exceeds, \<open>generate_response\<close> lets the
  \<open>TimeoutExpired\<close> of \<open>subprocess.run\<close> through, while \<open>generate_response_async\<close> raises a
  \<open>RuntimeError\<close> with the message \<open>LLaMA timeout.\<close> and the command line.
\<close>

theorem generate_response_timeout_differs:
  "generate_response slow_process example_llama ''hi'' 200 None (Some 1)
     = Inl (TimeoutExpired
              [''/app/llama.cpp/build/bin/llama-cli'', ''-m'', ''/models/model.gguf'',
               ''-n'', ''200'', ''-ngl'', ''0'', ''-p'', ''hi''] (Some 1))
   \<and> generate_response_async slow_process example_llama ''hi'' 200 None (Some 1)
     = Inl (RuntimeError
              ''LLaMA timeout.\<newline>cmd: /app/llama.cpp/build/bin/llama-cli -m /models/model.gguf -n 200 -ngl 0 -p hi'')
   \<and> generate_response slow_process example_llama ''hi'' 200 None (Some 1)
     \<noteq> generate_response_async slow_process example_llama ''hi'' 200 None (Some 1)"
  by (simp add: generate_response_def generate_response_async_def run_async_def
      build_command_example slow_process_def shlex_join_def shlex_quote_def shlex_safe_char_def)

section \<open>Properties of the Search Service\<close>

text \<open>
  C10 (bulk indexing of an empty document list): \<open>index_docs\<close> returns the count 0 as a
  success and leaves the log of calls as it was, so it makes no existence test, no index
  creation, no call of the embedding model and no bulk write.
\<close>

theorem index_docs_empty: "index_docs svc [] calls = (Inr 0, calls)"
  by (simp add: index_docs_def)

















lemma merged_stable: "filter (\<lambda>x. snd x = v) (merged sc) = filter (\<lambda>x. snd x = v) sc"
proof -
  have "filter (\<lambda>x. - snd x = - v) (sort_key (\<lambda>x. - snd x) sc) = filter (\<lambda>x. - snd x = - v) sc"
    by (rule sort_key_stable)
  then show ?thesis by (simp add: merged_def)
qed












section \<open>Properties of the cache key\<close>































section \<open>Properties of the Analysis Coordinator\<close>

lemma store_record_event [simp]: "store (record_event e w) = store w"
  by (simp add: record_event_def)

lemma events_record_event [simp]: "events (record_event e w) = events w @ [e]"
  by (simp add: record_event_def)

lemma cache_hit_run:
  assumes "cache_get (cache self) (cache_key req) (store w) = Inr (Some s)"
    and "s \<noteq> []"
  shows "perform_analysis rm self req w
         = (model_validate_json rm s,
            w\<lparr>events := events w @ [CacheGet (cache_key req), Validate s]\<rparr>)"
  using assms
  by (simp add: perform_analysis_def Let_def cached_truthy_def record_event_def)

lemma cache_miss_enter:
  assumes "cache_get (cache self) (cache_key req) (store w) = Inr c"
    and "\<not> cached_truthy c"
  shows "perform_analysis rm self req w
         = cache_miss rm self req (cache_key req) (record_event (CacheGet (cache_key req)) w)"
  using assms by (simp add: perform_analysis_def Let_def)

lemma cache_miss_success_run:
  assumes "search_vector_of (retriever self) = Inr sv"
    and "sv (context_of req) = Inr chunks"
    and "generate_async (generator self) (prompt_of rm req chunks) 512 = Inr out"
  shows "cache_miss rm self req key w1 =
     (case cache_set (cache self) key out 3600 (store w1) of
        Inl e \<Rightarrow> (Inl e, w1\<lparr>events := events w1
             @ [SearchVector (context_of req), Generate (prompt_of rm req chunks) 512, CacheSet key out 3600]\<rparr>)
      | Inr st \<Rightarrow> (validate_response rm out,
            \<lparr>store = st, events = events w1
             @ [SearchVector (context_of req), Generate (prompt_of rm req chunks) 512,
                CacheSet key out 3600, Validate out]\<rparr>))"
  using assms
  by (simp add: cache_miss_def Let_def context_of_def prompt_of_def TTL_SECONDS_def record_event_def
      split: sum.splits)

lemma example_report_json_nonempty: "example_report_json \<noteq> []"
  by (simp add: example_report_json_def)

text \<open>
  C1 (cache hit): when the cache returns, under the derived key, a text that the report
  model accepts (such a text is a JSON object, so it is not empty and the test
  \<open>if cached_report\<close> succeeds), \<open>perform_analysis\<close> returns the report that
  \<open>model_validate_json\<close> makes of that text. The only events it adds are the cache read and
  the deserialisation: no retrieval, no generation, no cache write, and the store is as
  before.
\<close>

theorem cache_hit_returns_cached_report:
  assumes "cache_get (cache self) (cache_key req) (store w) = Inr (Some s)"
    and "s \<noteq> []"
    and "model_validate_json rm s = Inr report"
  shows "perform_analysis rm self req w
           = (Inr report, w\<lparr>events := events w @ [CacheGet (cache_key req), Validate s]\<rparr>)
         \<and> store (snd (perform_analysis rm self req w)) = store w
         \<and> count_events is_retrieval (new_events w (snd (perform_analysis rm self req w))) = 0
         \<and> count_events is_generation (new_events w (snd (perform_analysis rm self req w))) = 0
         \<and> count_events is_cache_write (new_events w (snd (perform_analysis rm self req w))) = 0"
  using assms
  by (simp add: cache_hit_run [OF assms(1,2)] count_events_def new_events_def)

theorem cache_hit_returns_cached_report_witness:
  "cache_get (cache (stub_domain [])) (cache_key example_request) (store warm_world)
     = Inr (Some example_report_json)
   \<and> example_report_json \<noteq> []
   \<and> model_validate_json example_model example_report_json = Inr example_report
   \<and> perform_analysis example_model (stub_domain []) example_request warm_world
     = (Inr example_report,
        \<lparr>store = [cache_key example_request \<mapsto> (example_report_json, 3600)],
         events = [CacheGet (cache_key example_request), Validate example_report_json]\<rparr>)
   \<and> count_events is_retrieval
        (new_events warm_world (snd (perform_analysis example_model (stub_domain []) example_request warm_world))) = 0"
proof -
  have g: "cache_get (cache (stub_domain [])) (cache_key example_request) (store warm_world)
     = Inr (Some example_report_json)"
    by (simp add: stub_domain_def key_value_cache_def warm_world_def)
  have v: "model_validate_json example_model example_report_json = Inr example_report"
    by (simp add: example_model_def example_validate_def)
  show ?thesis
    using cache_hit_returns_cached_report [OF g example_report_json_nonempty v] g v
      example_report_json_nonempty
    by (simp add: warm_world_def count_events_def new_events_def)
qed

lemma cache_miss_validate:
  assumes "cache_miss rm self req key w1 = (res, w')"
    and "Validate s \<in> set (drop (length (events w1)) (events w'))"
  shows "\<exists>ctx p st. events w' = events w1 @ [SearchVector ctx, Generate p 512, CacheSet key s 3600, Validate s]
           \<and> cache_set (cache self) key s 3600 (store w1) = Inr st
           \<and> store w' = st \<and> res = validate_response rm s"
  using assms
  by (auto simp: cache_miss_def Let_def TTL_SECONDS_def record_event_def split: sum.splits)

text \<open>
  C4 (the raw output is cached before it is parsed): on a cache miss, whenever the output
  \<open>s\<close> of the generator is handed to \<open>model_validate_json\<close>, the write of \<open>s\<close> under the
  derived key with the expiration 3600 is the event just before, it has succeeded, and the
  result of the call is the result of the validation. With a cache that keeps what is set,
  the store then holds \<open>s\<close> under the key whatever the validation says, so also when it
  fails: the write is not undone.
\<close>

theorem cache_write_precedes_parse:
  assumes "cache_get (cache self) (cache_key req) (store w) = Inr c"
    and "\<not> cached_truthy c"
    and "perform_analysis rm self req w = (res, w')"
    and "Validate s \<in> set (new_events w w')"
  shows "(\<exists>before. new_events w w' = before @ [CacheSet (cache_key req) s 3600, Validate s])
         \<and> cache_set (cache self) (cache_key req) s 3600 (store w) = Inr (store w')
         \<and> res = validate_response rm s
         \<and> (cache self = key_value_cache \<longrightarrow>
              store w' (cache_key req) = Some (s, 3600)
              \<and> cache_get (cache self) (cache_key req) (store w') = Inr (Some s))"
proof -
  let ?k = "cache_key req"
  let ?w1 = "record_event (CacheGet ?k) w"
  have run: "cache_miss rm self req ?k ?w1 = (res, w')"
    using cache_miss_enter [OF assms(1,2)] assms(3) by simp
  have sub: "set (drop (length (events ?w1)) (events w')) = set (drop (Suc (length (events w))) (events w'))"
    by simp
  have ev: "events w' = events w @ drop (length (events w)) (events w')"
  proof -
    have "\<exists>rest. events w' = events ?w1 @ rest"
      using run by (auto simp: cache_miss_def Let_def record_event_def split: sum.splits)
    then show ?thesis by auto
  qed
  have "Validate s \<in> set (drop (length (events ?w1)) (events w'))"
  proof -
    from ev obtain rest where r: "events w' = events w @ rest" by blast
    have "\<exists>rest'. events w' = (events w @ [CacheGet ?k]) @ rest'"
      using run by (auto simp: cache_miss_def Let_def record_event_def split: sum.splits)
    then obtain rest' where r': "events w' = (events w @ [CacheGet ?k]) @ rest'" by blast
    have "new_events w w' = CacheGet ?k # rest'" using r' by (simp add: new_events_def)
    with assms(4) have "Validate s \<in> set rest'" by auto
    moreover have "drop (length (events ?w1)) (events w') = rest'" using r' by simp
    ultimately show ?thesis by simp
  qed
  from cache_miss_validate [OF run this]
  obtain ctx p st where
    e: "events w' = events ?w1 @ [SearchVector ctx, Generate p 512, CacheSet ?k s 3600, Validate s]"
    and cs: "cache_set (cache self) ?k s 3600 (store ?w1) = Inr st"
    and st: "store w' = st" and res: "res = validate_response rm s"
    by blast
  have "new_events w w' = [CacheGet ?k, SearchVector ctx, Generate p 512] @ [CacheSet ?k s 3600, Validate s]"
    using e by (simp add: new_events_def)
  then have 1: "\<exists>before. new_events w w' = before @ [CacheSet ?k s 3600, Validate s]" by blast
  have 2: "cache_set (cache self) ?k s 3600 (store w) = Inr (store w')"
    using cs st by simp
  have 3: "cache self = key_value_cache \<longrightarrow>
              store w' ?k = Some (s, 3600) \<and> cache_get (cache self) ?k (store w') = Inr (Some s)"
  proof
    assume kv: "cache self = key_value_cache"
    from 2 kv have "store w' = (store w)(?k \<mapsto> (s, 3600))"
      by (simp add: key_value_cache_def)
    then show "store w' ?k = Some (s, 3600) \<and> cache_get (cache self) ?k (store w') = Inr (Some s)"
      using kv by (simp add: key_value_cache_def)
  qed
  show ?thesis using 1 2 3 res by blast
qed

lemma cache_miss_lookup_fails:
  assumes "search_vector_of (retriever self) = Inl e"
  shows "cache_miss rm self req key w1 = (Inl e, w1)"
  using assms by (simp add: cache_miss_def Let_def)

lemma cache_miss_retrieval_fails:
  assumes "search_vector_of (retriever self) = Inr sv"
    and "sv (context_of req) = Inl e"
  shows "cache_miss rm self req key w1
         = (Inl e, w1\<lparr>events := events w1 @ [SearchVector (context_of req)]\<rparr>)"
  using assms by (simp add: cache_miss_def Let_def context_of_def record_event_def)

lemma cache_miss_generation_fails:
  assumes "search_vector_of (retriever self) = Inr sv"
    and "sv (context_of req) = Inr chunks"
    and "generate_async (generator self) (prompt_of rm req chunks) 512 = Inl e"
  shows "cache_miss rm self req key w1
         = (Inl e, w1\<lparr>events := events w1
              @ [SearchVector (context_of req), Generate (prompt_of rm req chunks) 512]\<rparr>)"
  using assms
  by (simp add: cache_miss_def Let_def context_of_def prompt_of_def record_event_def)

lemma stub_domain_simps:
  "search_vector_of (retriever (stub_domain out)) = Inr (\<lambda>q. Inr [''MITRE T1.1: SMS abuse pattern''])"
  "generate_async (generator (stub_domain out)) p n = Inr out"
  "cache (stub_domain out) = key_value_cache"
  by (simp_all add: stub_domain_def)

lemma cold_world_events: "events cold_world = []"
  by (simp add: cold_world_def)

lemma cold_cache_absent: "cache_get key_value_cache k (store cold_world) = Inr None"
  by (simp add: key_value_cache_def cold_world_def)

lemma stub_domain_cold_run:
  "perform_analysis rm (stub_domain out) req cold_world
   = (validate_response rm out,
      \<lparr>store = [cache_key req \<mapsto> (out, 3600)],
       events = [CacheGet (cache_key req), SearchVector (context_of req),
                 Generate (prompt_of rm req [''MITRE T1.1: SMS abuse pattern'']) 512,
                 CacheSet (cache_key req) out 3600, Validate out]\<rparr>)"
proof -
  have enter: "perform_analysis rm (stub_domain out) req cold_world
      = cache_miss rm (stub_domain out) req (cache_key req) (record_event (CacheGet (cache_key req)) cold_world)"
    by (rule cache_miss_enter [where c = None])
       (simp_all add: stub_domain_simps cold_cache_absent cached_truthy_def)
  show ?thesis
    unfolding enter
    by (subst cache_miss_success_run [where sv = "\<lambda>q. Inr [''MITRE T1.1: SMS abuse pattern'']"
          and chunks = "[''MITRE T1.1: SMS abuse pattern'']" and out = out])
       (simp_all add: stub_domain_simps key_value_cache_def cold_world_def)
qed

theorem cache_write_precedes_parse_witness:
  "cache_get (cache (stub_domain ''not json'')) (cache_key example_request) (store cold_world) = Inr None
   \<and> \<not> cached_truthy None
   \<and> Validate ''not json''
       \<in> set (new_events cold_world
                (snd (perform_analysis example_model (stub_domain ''not json'') example_request cold_world)))
   \<and> fst (perform_analysis example_model (stub_domain ''not json'') example_request cold_world)
       = Inl (ValidationError ''1 validation error for ThemisAIReport: Invalid JSON'')
   \<and> store (snd (perform_analysis example_model (stub_domain ''not json'') example_request cold_world))
        (cache_key example_request) = Some (''not json'', 3600)
   \<and> (\<exists>before. new_events cold_world
          (snd (perform_analysis example_model (stub_domain ''not json'') example_request cold_world))
        = before @ [CacheSet (cache_key example_request) ''not json'' 3600, Validate ''not json''])"
proof -
  let ?run = "perform_analysis example_model (stub_domain ''not json'') example_request cold_world"
  have h1: "cache_get (cache (stub_domain ''not json'')) (cache_key example_request) (store cold_world) = Inr None"
    by (simp add: stub_domain_simps cold_cache_absent)
  have h2: "\<not> cached_truthy None" by (simp add: cached_truthy_def)
  have h3: "?run = (fst ?run, snd ?run)" by simp
  have h4: "Validate ''not json'' \<in> set (new_events cold_world (snd ?run))"
    by (simp add: stub_domain_cold_run new_events_def cold_world_events)
  have r: "fst ?run = Inl (ValidationError ''1 validation error for ThemisAIReport: Invalid JSON'')"
    by (simp add: stub_domain_cold_run validate_response_def example_model_def example_validate_def
        example_report_json_def incomplete_report_json_def)
  show ?thesis
    using cache_write_precedes_parse [OF h1 h2 h3 h4] h1 h2 h4 r
    by (simp add: stub_domain_simps)
qed

lemma crashing_domain_simps:
  "search_vector_of (retriever crashing_domain) = Inr (\<lambda>q. Inr [''MITRE T1.1: SMS abuse pattern''])"
  "generate_async (generator crashing_domain) p n
     = Inl (RuntimeError (failure_message 1 (build_command example_llama p n None) ''error: failed to load model''))"
  "cache crashing_domain = key_value_cache"
  by (simp_all add: crashing_domain_def generate_response_async_def run_async_def crashing_process_def)

lemma crashing_domain_cold_run:
  "perform_analysis rm crashing_domain req cold_world
   = (Inl (RuntimeError (failure_message 1
             (build_command example_llama (prompt_of rm req [''MITRE T1.1: SMS abuse pattern'']) 512 None)
             ''error: failed to load model'')),
      cold_world\<lparr>events := [CacheGet (cache_key req), SearchVector (context_of req),
                 Generate (prompt_of rm req [''MITRE T1.1: SMS abuse pattern'']) 512]\<rparr>)"
proof -
  have enter: "perform_analysis rm crashing_domain req cold_world
      = cache_miss rm crashing_domain req (cache_key req) (record_event (CacheGet (cache_key req)) cold_world)"
    by (rule cache_miss_enter [where c = None])
       (simp_all add: crashing_domain_simps cold_cache_absent cached_truthy_def)
  show ?thesis
    unfolding enter
    by (subst cache_miss_generation_fails [where sv = "\<lambda>q. Inr [''MITRE T1.1: SMS abuse pattern'']"
          and chunks = "[''MITRE T1.1: SMS abuse pattern'']"])
       (simp_all add: crashing_domain_simps record_event_def cold_world_events)
qed

text \<open>
  C3 (on every miss: one retrieval, one generation, one cache write) does not hold as
  stated. The cache is empty, the retrieval returns one fragment, and the child process of
  the generator exits with status 1, so \<open>generate_response_async\<close> raises its
  \<open>RuntimeError\<close>; the exception propagates, and the call has made no cache write.
\<close>

theorem cache_miss_generation_failure_counterexample:
  "cache_get (cache crashing_domain) (cache_key example_request) (store cold_world) = Inr None
   \<and> count_events is_retrieval
       (new_events cold_world (snd (perform_analysis example_model crashing_domain example_request cold_world))) = 1
   \<and> count_events is_generation
       (new_events cold_world (snd (perform_analysis example_model crashing_domain example_request cold_world))) = 1
   \<and> count_events is_cache_write
       (new_events cold_world (snd (perform_analysis example_model crashing_domain example_request cold_world))) = 0
   \<and> count_events is_cache_write
       (new_events cold_world (snd (perform_analysis example_model crashing_domain example_request cold_world))) \<noteq> 1"
  by (simp add: crashing_domain_cold_run crashing_domain_simps cold_cache_absent
      count_events_def new_events_def cold_world_events)

text \<open>
  C3 as amended: when the cache returns absent and the retrieval and the generation both
  return, the service calls of \<open>perform_analysis\<close> are, in this order, one retrieval with the
  specific context, one generation with the prompt and 512 tokens, and one cache write of
  the raw output of the generation under the derived key with the expiration 3600.
\<close>

theorem cache_miss_calls_each_service_once:
  assumes "cache_get (cache self) (cache_key req) (store w) = Inr None"
    and "search_vector_of (retriever self) = Inr sv"
    and "sv (context_of req) = Inr chunks"
    and "generate_async (generator self) (prompt_of rm req chunks) 512 = Inr out"
  shows "filter is_service_call (new_events w (snd (perform_analysis rm self req w)))
           = [SearchVector (context_of req), Generate (prompt_of rm req chunks) 512,
              CacheSet (cache_key req) out 3600]
         \<and> count_events is_retrieval (new_events w (snd (perform_analysis rm self req w))) = 1
         \<and> count_events is_generation (new_events w (snd (perform_analysis rm self req w))) = 1
         \<and> count_events is_cache_write (new_events w (snd (perform_analysis rm self req w))) = 1"
proof -
  have enter: "perform_analysis rm self req w
      = cache_miss rm self req (cache_key req) (record_event (CacheGet (cache_key req)) w)"
    by (rule cache_miss_enter [OF assms(1)]) (simp add: cached_truthy_def)
  have ev: "new_events w (snd (perform_analysis rm self req w))
      = [CacheGet (cache_key req), SearchVector (context_of req), Generate (prompt_of rm req chunks) 512,
         CacheSet (cache_key req) out 3600]
        @ (case cache_set (cache self) (cache_key req) out 3600 (store w) of
             Inl e \<Rightarrow> [] | Inr st \<Rightarrow> [Validate out])"
    unfolding enter cache_miss_success_run [OF assms(2,3,4)]
    by (simp add: new_events_def split: sum.splits)
  show ?thesis
    unfolding ev
    by (simp add: is_service_call_def count_events_def split: sum.splits)
qed

theorem cache_miss_calls_each_service_once_witness:
  "cache_get (cache (stub_domain example_report_json)) (cache_key example_request) (store cold_world) = Inr None
   \<and> search_vector_of (retriever (stub_domain example_report_json))
       = Inr (\<lambda>q. Inr [''MITRE T1.1: SMS abuse pattern''])
   \<and> (\<lambda>q. Inr [''MITRE T1.1: SMS abuse pattern'']) (context_of example_request)
       = (Inr [''MITRE T1.1: SMS abuse pattern''] :: exn + string list)
   \<and> generate_async (generator (stub_domain example_report_json))
        (prompt_of example_model example_request [''MITRE T1.1: SMS abuse pattern'']) 512
       = Inr example_report_json
   \<and> filter is_service_call
        (new_events cold_world
           (snd (perform_analysis example_model (stub_domain example_report_json) example_request cold_world)))
       = [SearchVector (context_of example_request),
          Generate (prompt_of example_model example_request [''MITRE T1.1: SMS abuse pattern'']) 512,
          CacheSet (cache_key example_request) example_report_json 3600]
   \<and> count_events is_cache_write
        (new_events cold_world
           (snd (perform_analysis example_model (stub_domain example_report_json) example_request cold_world))) = 1"
proof -
  have h1: "cache_get (cache (stub_domain example_report_json)) (cache_key example_request) (store cold_world) = Inr None"
    by (simp add: stub_domain_simps cold_cache_absent)
  have h2: "search_vector_of (retriever (stub_domain example_report_json))
       = Inr (\<lambda>q. Inr [''MITRE T1.1: SMS abuse pattern''])"
    by (simp add: stub_domain_simps)
  have h3: "(\<lambda>q. Inr [''MITRE T1.1: SMS abuse pattern'']) (context_of example_request)
       = (Inr [''MITRE T1.1: SMS abuse pattern''] :: exn + string list)"
    by simp
  have h4: "generate_async (generator (stub_domain example_report_json))
        (prompt_of example_model example_request [''MITRE T1.1: SMS abuse pattern'']) 512
       = Inr example_report_json"
    by (simp add: stub_domain_simps)
  show ?thesis
    using cache_miss_calls_each_service_once [OF h1 h2 h3 h4] h1 h2 h4
    by simp
qed

lemma validate_response_failure:
  "model_validate_json rm s = Inl e \<Longrightarrow> validate_response rm s = Inl (raised_for e s)"
  by (cases e) (simp_all add: validate_response_def raised_for_def)

text \<open>
  C5 (every invalid output is reported with the wrapped error quoting a prefix of the
  output) does not hold as stated. The generator returns a JSON object without five of the
  required fields; \<open>model_validate_json\<close> raises the \<open>ValidationError\<close> of pydantic, which
  is not a \<open>json.JSONDecodeError\<close>, so the handler does not apply and the caller receives
  the \<open>ValidationError\<close> itself, not the \<open>ValueError\<close> with the first 200 characters.
\<close>

theorem missing_field_error_counterexample:
  "model_validate_json example_model incomplete_report_json
     = Inl (ValidationError ''5 validation errors for ThemisAIReport: Field required'')
   \<and> fst (perform_analysis example_model (stub_domain incomplete_report_json) example_request cold_world)
     = Inl (ValidationError ''5 validation errors for ThemisAIReport: Field required'')
   \<and> fst (perform_analysis example_model (stub_domain incomplete_report_json) example_request cold_world)
     \<noteq> Inl (ValueError (invalid_json_message
                ''5 validation errors for ThemisAIReport: Field required'' incomplete_report_json))"
  by (simp add: stub_domain_cold_run validate_response_def example_model_def example_validate_def
      incomplete_report_json_def example_report_json_def)

text \<open>
  C5 as amended: on a cache miss on which the services return, whenever
  \<open>model_validate_json\<close> raises on the output of the generator, \<open>perform_analysis\<close> raises
  as well and returns no report, and the generator has been called exactly once. What is
  raised is the \<open>ValueError\<close> quoting the first 200 characters of the output when the
  validation raised \<open>json.JSONDecodeError\<close>, and the exception of the validation itself,
  unchanged, in every other case.
\<close>

theorem invalid_output_fails_without_retry:
  assumes "cache_get (cache self) (cache_key req) (store w) = Inr c"
    and "\<not> cached_truthy c"
    and "search_vector_of (retriever self) = Inr sv"
    and "sv (context_of req) = Inr chunks"
    and "generate_async (generator self) (prompt_of rm req chunks) 512 = Inr out"
    and "cache_set (cache self) (cache_key req) out 3600 (store w) = Inr st"
    and "model_validate_json rm out = Inl e"
  shows "fst (perform_analysis rm self req w) = Inl (raised_for e out)
         \<and> (\<forall>m. e = JSONDecodeError m \<longrightarrow>
               fst (perform_analysis rm self req w) = Inl (ValueError (invalid_json_message m out)))
         \<and> ((\<forall>m. e \<noteq> JSONDecodeError m) \<longrightarrow> fst (perform_analysis rm self req w) = Inl e)
         \<and> (\<forall>report. fst (perform_analysis rm self req w) \<noteq> Inr report)
         \<and> count_events is_generation (new_events w (snd (perform_analysis rm self req w))) = 1"
proof -
  have enter: "perform_analysis rm self req w
      = cache_miss rm self req (cache_key req) (record_event (CacheGet (cache_key req)) w)"
    by (rule cache_miss_enter [OF assms(1,2)])
  have run: "perform_analysis rm self req w
      = (Inl (raised_for e out),
         \<lparr>store = st, events = events w @ [CacheGet (cache_key req), SearchVector (context_of req),
             Generate (prompt_of rm req chunks) 512, CacheSet (cache_key req) out 3600, Validate out]\<rparr>)"
    unfolding enter cache_miss_success_run [OF assms(3,4,5)]
    using assms(6) by (simp add: validate_response_failure [OF assms(7)])
  have other: "(\<forall>m. e \<noteq> JSONDecodeError m) \<longrightarrow> raised_for e out = e"
    by (cases e) (simp_all add: raised_for_def)
  show ?thesis
    unfolding run using other
    by (simp add: raised_for_def count_events_def new_events_def)
qed

theorem invalid_output_fails_without_retry_witness:
  "cache_get (cache (stub_domain incomplete_report_json)) (cache_key example_request) (store cold_world) = Inr None
   \<and> \<not> cached_truthy None
   \<and> search_vector_of (retriever (stub_domain incomplete_report_json))
       = Inr (\<lambda>q. Inr [''MITRE T1.1: SMS abuse pattern''])
   \<and> generate_async (generator (stub_domain incomplete_report_json))
        (prompt_of example_model example_request [''MITRE T1.1: SMS abuse pattern'']) 512
       = Inr incomplete_report_json
   \<and> cache_set (cache (stub_domain incomplete_report_json)) (cache_key example_request)
        incomplete_report_json 3600 (store cold_world)
       = Inr [cache_key example_request \<mapsto> (incomplete_report_json, 3600)]
   \<and> model_validate_json example_model incomplete_report_json
       = Inl (ValidationError ''5 validation errors for ThemisAIReport: Field required'')
   \<and> fst (perform_analysis example_model (stub_domain incomplete_report_json) example_request cold_world)
       = Inl (ValidationError ''5 validation errors for ThemisAIReport: Field required'')
   \<and> count_events is_generation
        (new_events cold_world
          (snd (perform_analysis example_model (stub_domain incomplete_report_json) example_request cold_world))) = 1"
proof -
  let ?d = "stub_domain incomplete_report_json"
  have h1: "cache_get (cache ?d) (cache_key example_request) (store cold_world) = Inr None"
    by (simp add: stub_domain_simps cold_cache_absent)
  have h2: "\<not> cached_truthy None" by (simp add: cached_truthy_def)
  have h3: "search_vector_of (retriever ?d) = Inr (\<lambda>q. Inr [''MITRE T1.1: SMS abuse pattern''])"
    by (simp add: stub_domain_simps)
  have h4: "(\<lambda>q. Inr [''MITRE T1.1: SMS abuse pattern'']) (context_of example_request)
       = (Inr [''MITRE T1.1: SMS abuse pattern''] :: exn + string list)"
    by simp
  have h5: "generate_async (generator ?d)
        (prompt_of example_model example_request [''MITRE T1.1: SMS abuse pattern'']) 512
       = Inr incomplete_report_json"
    by (simp add: stub_domain_simps)
  have h6: "cache_set (cache ?d) (cache_key example_request) incomplete_report_json 3600 (store cold_world)
       = Inr [cache_key example_request \<mapsto> (incomplete_report_json, 3600)]"
    by (simp add: stub_domain_simps key_value_cache_def cold_world_def)
  have h7: "model_validate_json example_model incomplete_report_json
       = Inl (ValidationError ''5 validation errors for ThemisAIReport: Field required'')"
    by (simp add: example_model_def example_validate_def incomplete_report_json_def example_report_json_def)
  show ?thesis
    using invalid_output_fails_without_retry [OF h1 h2 h3 h4 h5 h6 h7] h1 h2 h3 h5 h6 h7
    by (simp add: raised_for_def)
qed

text \<open>
  C8 (on a miss the coordinator queries the Search Service and receives text fragments):
  with an \<open>OpenSearchService\<close> as retriever, which is what the dependency provider of the
  application supplies, the lookup of \<open>search_vector\<close> fails for every request on an empty
  cache. The call raises \<open>AttributeError\<close> after the cache read; there is no retrieval, no
  generation and no cache write.
\<close>

theorem opensearch_service_lacks_search_vector:
  "perform_analysis rm \<lparr>retriever = OpenSearchRetriever svc, generator = g, cache = key_value_cache\<rparr>
     req cold_world
   = (Inl (AttributeError ''search_vector''),
      \<lparr>store = Map.empty, events = [CacheGet (cache_key req)]\<rparr>)"
proof -
  let ?d = "\<lparr>retriever = OpenSearchRetriever svc, generator = g, cache = key_value_cache\<rparr>"
  have enter: "perform_analysis rm ?d req cold_world
      = cache_miss rm ?d req (cache_key req) (record_event (CacheGet (cache_key req)) cold_world)"
    by (rule cache_miss_enter [where c = None])
       (simp_all add: cold_cache_absent cached_truthy_def)
  have lk: "search_vector_of (retriever ?d) = Inl (AttributeError ''search_vector'')"
    by (simp add: OpenSearchService_attributes_def)
  show ?thesis
    unfolding enter cache_miss_lookup_fails [OF lk]
    by (simp add: record_event_def cold_world_def)
qed

text \<open>
  With a retriever that does have a \<open>search_vector\<close> coroutine, the query is the specific
  context and the fragments it returns are rendered into the prompt one per line.
\<close>

lemma chunks_one_per_line:
  "\<exists>before after. format_final_prompt system_prompt app_context mitre_context
      = before @ py_join ''\<newline>'' (map (\<lambda>c. ''  - '' @ c) mitre_context) @ after"
  unfolding format_final_prompt_def Let_def
  by (metis append.assoc)

lemma stub_retriever_gets_context:
  assumes "cache_get (cache self) (cache_key req) (store w) = Inr None"
    and "retriever self = SearchVectorStub sv"
    and "sv (context_of req) = Inr chunks"
  shows "\<exists>rest. new_events w (snd (perform_analysis rm self req w))
           = [CacheGet (cache_key req), SearchVector (context_of req),
              Generate (format_final_prompt (get_system_prompt (model_json_schema rm)) (context_of req) chunks) 512]
             @ rest"
proof -
  have enter: "perform_analysis rm self req w
      = cache_miss rm self req (cache_key req) (record_event (CacheGet (cache_key req)) w)"
    by (rule cache_miss_enter [OF assms(1)]) (simp add: cached_truthy_def)
  show ?thesis
    unfolding enter using assms(2,3)
    by (auto simp: cache_miss_def Let_def context_of_def new_events_def record_event_def
        split: sum.splits)
qed

section \<open>Properties of the HTTP endpoint\<close>

text \<open>
  C9 (the dependency factory cannot build the coordinator): \<open>get_analysis_domain\<close> calls
  the constructor with the retriever and the generator only, the constructor needs the
  cache as well, so every call of the factory raises \<open>TypeError\<close> for the missing
  \<open>cache\<close>. The endpoint then fails while its dependencies are resolved: the world is
  unchanged, so \<open>perform_analysis\<close> has not made a single call.
\<close>

theorem get_analysis_domain_raises:
  "get_analysis_domain r g = Inl (TypeError ''cache'')
   \<and> AnalysisDomain_init (Some r) (Some g) None = Inl (TypeError ''cache'')
   \<and> analyze_app rm (Inr ()) r g req w = (Inl (DependencyFailed (TypeError ''cache'')), w)
   \<and> (\<exists>e. analyze_app rm current_user r g req w = (Inl (DependencyFailed e), w))"
  by (cases current_user)
     (simp_all add: get_analysis_domain_def AnalysisDomain_init_def missing_arguments_def
        analyze_app_def)

end
